theory Spec2Isabelle
  imports Complex_Main
begin

section \<open>The Aurora PV-inverter D-Bus service\<close>

text \<open>
  A shallow embedding of \<^verbatim>\<open>dbus_aurora_pvinverter.py\<close>: the class
  \<^verbatim>\<open>DbusDummyService\<close> with its four reading attributes, the acquisition
  method \<^verbatim>\<open>_getInverterData\<close>, the publication method \<^verbatim>\<open>_update\<close>, the
  change hook \<^verbatim>\<open>_handlechangedvalue\<close>, the constructor and \<^verbatim>\<open>main\<close>.

  Conventions of the embedding:
  \<^item> A Python \<^verbatim>\<open>float\<close> is modelled by the exact rational it denotes; the binary
    rounding of IEEE division, NaN, infinities and the negative zero are not modelled.
  \<^item> Calls of \<^verbatim>\<open>logging\<close> only append to the log output and are left out; their
    arguments are taken to evaluate without an exception (the device's timestamp is in
    the range of \<^verbatim>\<open>datetime.fromtimestamp\<close>, a measurement is a number).
  \<^item> The serial client (package aurorapy) is a record of the replies the device gives
    in one cycle; a reply \<open>Inl msg\<close> means that the call raises \<^verbatim>\<open>AuroraError(msg)\<close>,
    the exception of that package. \<^verbatim>\<open>close()\<close> is taken not to fail. The calls made
    on the client are recorded in a list.
  \<^item> The bus service object (\<^verbatim>\<open>VeDbusService\<close>, package velib\_python) is not part
    of the source file; its operations are modelled from the specification of the
    state path registry.
\<close>

subsection \<open>Python values\<close>

datatype number = PyInt int | PyFloat rat

datatype pyval = PyNone | PyNum number | PyStr string

datatype exn =
    AuroraError string
  | TypeError
  | DuplicatePathError string
  | UnknownPathError string
  | NotWritableError string

text \<open>Rounding of an exact value to the nearest integer, ties to the even neighbour.\<close>

definition round_half_even :: "rat \<Rightarrow> int" where
  "round_half_even x =
     (let f = \<lfloor>x\<rfloor>; d = x - of_int f in
      if d < 1 / 2 then f
      else if 1 / 2 < d then f + 1
      else if even f then f else f + 1)"

text \<open>
  \<^verbatim>\<open>round(x, n)\<close> for \<open>n \<ge> 0\<close>: an \<^verbatim>\<open>int\<close> is returned unchanged, a
  \<^verbatim>\<open>float\<close> is rounded to \<open>n\<close> decimals.
\<close>

definition round_float :: "rat \<Rightarrow> nat \<Rightarrow> rat" where
  "round_float x n = of_int (round_half_even (x * 10 ^ n)) / 10 ^ n"

fun py_round :: "number \<Rightarrow> nat \<Rightarrow> number" where
  "py_round (PyInt i) n = PyInt i"
| "py_round (PyFloat x) n = PyFloat (round_float x n)"

text \<open>
  \<^verbatim>\<open>x / d\<close> where \<open>d\<close> is one of the float literals \<^verbatim>\<open>3.0\<close>, \<^verbatim>\<open>1000.0\<close>,
  \<^verbatim>\<open>3000.0\<close>: true division, the result is always a \<^verbatim>\<open>float\<close>.
\<close>

fun py_truediv :: "number \<Rightarrow> rat \<Rightarrow> number" where
  "py_truediv (PyInt i) d = PyFloat (of_int i / d)"
| "py_truediv (PyFloat x) d = PyFloat (x / d)"

text \<open>
  \<^verbatim>\<open>str\<close> of a number. For a \<^verbatim>\<open>float\<close> the model covers the values the
  formatters of \<^verbatim>\<open>main\<close> pass to it: at most two decimals and a magnitude below
  \<open>10^16\<close>, where Python prints the plain decimal expansion with at least one decimal.
\<close>

fun str_nat :: "nat \<Rightarrow> string" where
  "str_nat n =
     (if n < 10 then [''0123456789'' ! n]
      else str_nat (n div 10) @ [''0123456789'' ! (n mod 10)])"

declare str_nat.simps [simp del]

definition str_int :: "int \<Rightarrow> string" where
  "str_int i = (if i < 0 then ''-'' @ str_nat (nat (- i)) else str_nat (nat i))"

definition str_float :: "rat \<Rightarrow> string" where
  "str_float x =
     (let h = nat \<lfloor>\<bar>x\<bar> * 100\<rfloor>;
          sign = (if x < 0 then ''-'' else '''');
          frac = (if h mod 10 = 0 then str_nat (h mod 100 div 10)
                  else str_nat (h mod 100 div 10) @ str_nat (h mod 10))
      in sign @ str_nat (h div 100) @ ''.'' @ frac)"

fun py_str :: "number \<Rightarrow> string" where
  "py_str (PyInt i) = str_int i"
| "py_str (PyFloat x) = str_float x"

subsection \<open>The state path registry\<close>

type_synonym gettext = "string \<Rightarrow> pyval \<Rightarrow> exn + string"
type_synonym onchange = "string \<Rightarrow> pyval \<Rightarrow> bool"

record cell =
  cvalue :: pyval
  gettextcallback :: "gettext option"
  writeable :: bool
  onchangecallback :: "onchange option"

type_synonym registry = "string \<rightharpoonup> cell"

type_synonym batch = "(string \<times> pyval) list"

text \<open>
  Modelled from the spec: \<^verbatim>\<open>VeDbusService.add_path\<close> is the registry's
  \<open>register(name, initialValue, formatter, writable, onChange)\<close>, which adds a cell
  and fails with \<open>DuplicatePathError\<close> if the name is already registered.
\<close>

definition add_path ::
  "string \<Rightarrow> pyval \<Rightarrow> gettext option \<Rightarrow> bool \<Rightarrow> onchange option \<Rightarrow> registry \<Rightarrow> exn + registry" where
  "add_path name v fmt w hook reg =
     (case reg name of
        Some c \<Rightarrow> Inl (DuplicatePathError name)
      | None \<Rightarrow> Inr (reg(name \<mapsto>
          \<lparr>cvalue = v, gettextcallback = fmt, writeable = w, onchangecallback = hook\<rparr>)))"

fun add_paths ::
  "(string \<times> pyval \<times> gettext option \<times> bool \<times> onchange option) list \<Rightarrow> registry \<Rightarrow> exn + registry" where
  "add_paths [] reg = Inr reg"
| "add_paths ((name, v, fmt, w, hook) # rest) reg =
     (case add_path name v fmt w hook reg of
        Inl e \<Rightarrow> Inl e
      | Inr reg' \<Rightarrow> add_paths rest reg')"

text \<open>
  Modelled from the spec: the item assignment \<^verbatim>\<open>s[path] = value\<close> inside the
  \<^verbatim>\<open>with\<close> block is the registry's \<open>publish(name, value)\<close>. It sets the value
  unconditionally, does not call the change hook, and adds the change to the open
  change-batch. A name that was never registered is an \<open>UnknownPathError\<close>.
\<close>

definition publish :: "string \<Rightarrow> pyval \<Rightarrow> registry \<times> batch \<Rightarrow> exn + registry \<times> batch" where
  "publish name v ctx =
     (case fst ctx name of
        None \<Rightarrow> Inl (UnknownPathError name)
      | Some c \<Rightarrow> Inr ((fst ctx)(name \<mapsto> c\<lparr>cvalue := v\<rparr>), snd ctx @ [(name, v)]))"

fun publish_all :: "batch \<Rightarrow> registry \<times> batch \<Rightarrow> exn + registry \<times> batch" where
  "publish_all [] ctx = Inr ctx"
| "publish_all ((name, v) # rest) ctx =
     (case publish name v ctx of
        Inl e \<Rightarrow> Inl e
      | Inr ctx' \<Rightarrow> publish_all rest ctx')"

text \<open>
  Modelled from the spec: \<open>requestWrite(name, proposedValue)\<close>, the write of an
  external bus caller. It fails with \<open>NotWritableError\<close> on a cell that is not
  writable; otherwise the change hook decides: on acceptance the value is committed and
  observers are notified, on rejection the write is dropped and the prior value kept. A
  cell registered without a hook accepts. The result is the registry and the changes to
  notify.
\<close>

definition request_write :: "string \<Rightarrow> pyval \<Rightarrow> registry \<Rightarrow> exn + registry \<times> batch" where
  "request_write name v reg =
     (case reg name of
        None \<Rightarrow> Inl (UnknownPathError name)
      | Some c \<Rightarrow>
          if \<not> writeable c then Inl (NotWritableError name)
          else if (case onchangecallback c of None \<Rightarrow> True | Some hook \<Rightarrow> hook name v)
          then Inr (reg(name \<mapsto> c\<lparr>cvalue := v\<rparr>), [(name, v)])
          else Inr (reg, []))"

text \<open>
  Modelled from the spec: \<open>read(name)\<close> returns the current value and the formatted
  string, and fails with \<open>UnknownPathError\<close> on a name that was never registered. The
  two components are given as two functions. A cell without formatter shows \<^verbatim>\<open>str\<close>
  of its value.
\<close>

definition get_value :: "registry \<Rightarrow> string \<Rightarrow> exn + pyval" where
  "get_value reg name =
     (case reg name of None \<Rightarrow> Inl (UnknownPathError name) | Some c \<Rightarrow> Inr (cvalue c))"

fun default_text :: "pyval \<Rightarrow> string" where
  "default_text PyNone = ''None''"
| "default_text (PyNum n) = py_str n"
| "default_text (PyStr s) = s"

definition get_text :: "registry \<Rightarrow> string \<Rightarrow> exn + string" where
  "get_text reg name =
     (case reg name of
        None \<Rightarrow> Inl (UnknownPathError name)
      | Some c \<Rightarrow>
          (case gettextcallback c of
             None \<Rightarrow> Inr (default_text (cvalue c))
           | Some fmt \<Rightarrow> fmt name (cvalue c)))"

subsection \<open>The serial client\<close>

record aurora_client =
  connect_reply :: "string + unit"
  time_date_reply :: "string + int"
  measure_reply :: "nat \<Rightarrow> string + rat"
  cumulated_energy_reply :: "nat \<Rightarrow> string + rat"

datatype call = Connect | Time_date | Measure nat | Cumulated_energy nat | Close

subsection \<open>The service class\<close>

record dbus_dummy_service =
  grid_voltage :: number
  grid_current :: number
  grid_power :: number
  cum_energy_total :: number
  dbusservice :: registry
  items_changed :: "batch list"

text \<open>\<^verbatim>\<open>_handlechangedvalue\<close>: logs and accepts the change.\<close>

definition handlechangedvalue :: "string \<Rightarrow> pyval \<Rightarrow> bool" where
  "handlechangedvalue path v = True"

text \<open>
  The body of the \<^verbatim>\<open>try\<close> block of \<^verbatim>\<open>_getInverterData\<close>. The result is the
  exception that leaves the block, if any, the object with the attributes assigned so
  far, and the calls made on the client.
\<close>

definition getInverterData_try ::
  "aurora_client \<Rightarrow> dbus_dummy_service \<Rightarrow> (exn + unit) \<times> dbus_dummy_service \<times> call list" where
  "getInverterData_try client self =
     (case connect_reply client of
        Inl m \<Rightarrow> (Inl (AuroraError m), self, [Connect])
      | Inr u \<Rightarrow>
     (case time_date_reply client of
        Inl m \<Rightarrow> (Inl (AuroraError m), self, [Connect, Time_date])
      | Inr client_time \<Rightarrow>
        if client_time \<noteq> - 1 then
         (case measure_reply client 1 of
            Inl m \<Rightarrow> (Inl (AuroraError m), self, [Connect, Time_date, Measure 1])
          | Inr v \<Rightarrow>
         (case measure_reply client 2 of
            Inl m \<Rightarrow> (Inl (AuroraError m), self\<lparr>grid_voltage := PyFloat v\<rparr>,
                      [Connect, Time_date, Measure 1, Measure 2])
          | Inr i \<Rightarrow>
         (case measure_reply client 3 of
            Inl m \<Rightarrow> (Inl (AuroraError m),
                      self\<lparr>grid_voltage := PyFloat v, grid_current := PyFloat i\<rparr>,
                      [Connect, Time_date, Measure 1, Measure 2, Measure 3])
          | Inr p \<Rightarrow>
         (case cumulated_energy_reply client 5 of
            Inl m \<Rightarrow> (Inl (AuroraError m),
                      self\<lparr>grid_voltage := PyFloat v, grid_current := PyFloat i,
                           grid_power := PyFloat p\<rparr>,
                      [Connect, Time_date, Measure 1, Measure 2, Measure 3,
                       Cumulated_energy 5])
          | Inr e \<Rightarrow> (Inr (),
                      self\<lparr>grid_voltage := PyFloat v, grid_current := PyFloat i,
                           grid_power := PyFloat p, cum_energy_total := PyFloat e\<rparr>,
                      [Connect, Time_date, Measure 1, Measure 2, Measure 3,
                       Cumulated_energy 5])))))
        else (Inr (), self, [Connect, Time_date, Close])))"

text \<open>
  \<^verbatim>\<open>_getInverterData\<close>: the \<^verbatim>\<open>try\<close> block, the handler
  \<^verbatim>\<open>except AuroraError\<close>, which swallows that exception and lets any other pass, and
  the \<^verbatim>\<open>finally\<close> clause, which closes the client; then \<^verbatim>\<open>return True\<close>.
\<close>

definition getInverterData ::
  "aurora_client \<Rightarrow> dbus_dummy_service \<Rightarrow> (exn + bool) \<times> dbus_dummy_service \<times> call list" where
  "getInverterData client self =
     (case getInverterData_try client self of
        (r, self', calls) \<Rightarrow>
          (case r of
             Inl (AuroraError m) \<Rightarrow> (Inr True, self', calls @ [Close])
           | Inl e \<Rightarrow> (Inl e, self', calls @ [Close])
           | Inr u \<Rightarrow> (Inr True, self', calls @ [Close])))"

text \<open>The seventeen item assignments of the \<^verbatim>\<open>with\<close> block of \<^verbatim>\<open>_update\<close>, in order.\<close>

definition update_items :: "dbus_dummy_service \<Rightarrow> batch" where
  "update_items self =
     [(''/Ac/Power'', PyNum (py_round (grid_power self) 2)),
      (''/Ac/Current'', PyNum (py_round (grid_current self) 2)),
      (''/Ac/L1/Voltage'', PyNum (py_round (grid_voltage self) 2)),
      (''/Ac/L1/Current'', PyNum (py_round (py_truediv (grid_current self) 3) 2)),
      (''/Ac/L1/Power'', PyNum (py_round (py_truediv (grid_power self) 3) 2)),
      (''/Ac/L2/Voltage'', PyNum (py_round (grid_voltage self) 2)),
      (''/Ac/L2/Current'', PyNum (py_round (py_truediv (grid_current self) 3) 2)),
      (''/Ac/L2/Power'', PyNum (py_round (py_truediv (grid_power self) 3) 2)),
      (''/Ac/L3/Voltage'', PyNum (py_round (grid_voltage self) 2)),
      (''/Ac/L3/Current'', PyNum (py_round (py_truediv (grid_current self) 3) 2)),
      (''/Ac/L3/Power'', PyNum (py_round (py_truediv (grid_power self) 3) 2)),
      (''/Ac/Energy/Forward'', PyNum (py_round (py_truediv (cum_energy_total self) 1000) 2)),
      (''/Ac/L1/Energy/Forward'', PyNum (py_round (py_truediv (cum_energy_total self) 3000) 2)),
      (''/Ac/L2/Energy/Forward'', PyNum (py_round (py_truediv (cum_energy_total self) 3000) 2)),
      (''/Ac/L3/Energy/Forward'', PyNum (py_round (py_truediv (cum_energy_total self) 3000) 2)),
      (''/Ac/MaxPower'', PyNum (PyInt 10000)),
      (''/StatusCode'', PyNum (PyInt 7))]"

text \<open>
  Modelled from the spec: \<^verbatim>\<open>with self._dbusservice as s\<close> is the registry's scoped
  transaction: it opens a change-batch, the body writes the paths, and a normal exit
  commits the batch, which observers receive as one notification. If the body raises,
  the exception leaves the block and nothing of the batch is committed.
\<close>

definition with_dbusservice ::
  "(registry \<times> batch \<Rightarrow> exn + registry \<times> batch) \<Rightarrow> dbus_dummy_service \<Rightarrow>
     (exn + unit) \<times> dbus_dummy_service" where
  "with_dbusservice body self =
     (case body (dbusservice self, []) of
        Inl e \<Rightarrow> (Inl e, self)
      | Inr (reg, changes) \<Rightarrow>
          (Inr (), self\<lparr>dbusservice := reg, items_changed := items_changed self @ [changes]\<rparr>))"

text \<open>\<^verbatim>\<open>_update\<close>: acquire, publish, \<^verbatim>\<open>return True\<close>.\<close>

definition update :: "aurora_client \<Rightarrow> dbus_dummy_service \<Rightarrow> (exn + bool) \<times> dbus_dummy_service" where
  "update client self =
     (case getInverterData client self of
        (Inl e, self1, calls) \<Rightarrow> (Inl e, self1)
      | (Inr b, self1, calls) \<Rightarrow>
          (case with_dbusservice (publish_all (update_items self1)) self1 of
             (Inl e, self2) \<Rightarrow> (Inl e, self2)
           | (Inr u, self2) \<Rightarrow> (Inr True, self2)))"

subsection \<open>Construction and the main loop\<close>

record settings =
  initial :: pyval
  textformat :: gettext

text \<open>
  The main loop with the timeout source that \<^verbatim>\<open>GLib.timeout_add\<close> installs:
  \<open>Some ms\<close> while the source with period \<open>ms\<close> milliseconds is installed.
\<close>

record mainloop =
  pvac_output :: dbus_dummy_service
  timeout :: "nat option"

text \<open>
  \<^verbatim>\<open>DbusDummyService.__init__\<close>: the management and mandatory paths, then one
  writable path with formatter and change hook for each entry of \<^verbatim>\<open>paths\<close>, then
  the timeout source. The class attributes start as the integer 0. The values of
  \<^verbatim>\<open>__file__\<close> and \<^verbatim>\<open>platform.python_version()\<close> are parameters.
\<close>

definition mandatory_paths ::
  "string \<Rightarrow> string \<Rightarrow> int \<Rightarrow> string \<Rightarrow> string \<Rightarrow> int \<Rightarrow>
     (string \<times> pyval \<times> gettext option \<times> bool \<times> onchange option) list" where
  "mandatory_paths file python_version deviceinstance productname connection productid =
     [(''/Mgmt/ProcessName'', PyStr file, None, False, None),
      (''/Mgmt/ProcessVersion'',
         PyStr (''Unkown version, and running on Python '' @ python_version), None, False, None),
      (''/Mgmt/Connection'', PyStr connection, None, False, None),
      (''/DeviceInstance'', PyNum (PyInt deviceinstance), None, False, None),
      (''/ProductId'', PyNum (PyInt productid), None, False, None),
      (''/ProductName'', PyStr productname, None, False, None),
      (''/FirmwareVersion'', PyNum (PyInt 0), None, False, None),
      (''/HardwareVersion'', PyNum (PyInt 0), None, False, None),
      (''/Connected'', PyNum (PyInt 1), None, False, None),
      (''/Position'', PyNum (PyInt 0), None, False, None),
      (''/StatusCode'', PyNum (PyInt 0), None, False, None),
      (''/Role'', PyStr ''pvinverter'', None, False, None),
      (''/DbusInvalid'', PyNone, None, False, None)]"

definition telemetry_paths ::
  "(string \<times> settings) list \<Rightarrow>
     (string \<times> pyval \<times> gettext option \<times> bool \<times> onchange option) list" where
  "telemetry_paths paths =
     map (\<lambda>(path, s). (path, initial s, Some (textformat s), True, Some handlechangedvalue)) paths"

definition init ::
  "string \<Rightarrow> string \<Rightarrow> string \<Rightarrow> int \<Rightarrow> (string \<times> settings) list \<Rightarrow> string \<Rightarrow> string \<Rightarrow> int \<Rightarrow>
     exn + mainloop" where
  "init file python_version servicename deviceinstance paths productname connection productid =
     (case add_paths
        (mandatory_paths file python_version deviceinstance productname connection productid
         @ telemetry_paths paths)
        Map.empty of
        Inl e \<Rightarrow> Inl e
      | Inr reg \<Rightarrow>
          Inr \<lparr>pvac_output =
                 \<lparr>grid_voltage = PyInt 0, grid_current = PyInt 0, grid_power = PyInt 0,
                  cum_energy_total = PyInt 0, dbusservice = reg, items_changed = []\<rparr>,
               timeout = Some 10000\<rparr>)"

text \<open>The formatters of \<^verbatim>\<open>main\<close>: \<^verbatim>\<open>str(round(v, n)) + unit\<close>.\<close>

definition format_rounded :: "nat \<Rightarrow> string \<Rightarrow> gettext" where
  "format_rounded n unit p v =
     (case v of PyNum x \<Rightarrow> Inr (py_str (py_round x n) @ unit) | _ \<Rightarrow> Inl TypeError)"

definition kwh :: gettext where "kwh = format_rounded 2 ''kWh''"
definition fmt_a :: gettext where "fmt_a = format_rounded 1 ''A''"
definition fmt_w :: gettext where "fmt_w = format_rounded 1 ''W''"
definition fmt_v :: gettext where "fmt_v = format_rounded 1 ''V''"

definition main_paths :: "(string \<times> settings) list" where
  "main_paths =
     [(''/Ac/Power'', \<lparr>initial = PyNum (PyInt 0), textformat = fmt_w\<rparr>),
      (''/Ac/Current'', \<lparr>initial = PyNum (PyInt 0), textformat = fmt_a\<rparr>),
      (''/Ac/L1/Voltage'', \<lparr>initial = PyNum (PyInt 0), textformat = fmt_v\<rparr>),
      (''/Ac/L1/Current'', \<lparr>initial = PyNum (PyInt 0), textformat = fmt_a\<rparr>),
      (''/Ac/L1/Power'', \<lparr>initial = PyNum (PyInt 0), textformat = fmt_w\<rparr>),
      (''/Ac/L2/Voltage'', \<lparr>initial = PyNum (PyInt 0), textformat = fmt_v\<rparr>),
      (''/Ac/L2/Current'', \<lparr>initial = PyNum (PyInt 0), textformat = fmt_a\<rparr>),
      (''/Ac/L2/Power'', \<lparr>initial = PyNum (PyInt 0), textformat = fmt_w\<rparr>),
      (''/Ac/L3/Voltage'', \<lparr>initial = PyNum (PyInt 0), textformat = fmt_v\<rparr>),
      (''/Ac/L3/Current'', \<lparr>initial = PyNum (PyInt 0), textformat = fmt_a\<rparr>),
      (''/Ac/L3/Power'', \<lparr>initial = PyNum (PyInt 0), textformat = fmt_w\<rparr>),
      (''/Ac/Energy/Forward'', \<lparr>initial = PyNone, textformat = kwh\<rparr>),
      (''/Ac/L1/Energy/Forward'', \<lparr>initial = PyNone, textformat = kwh\<rparr>),
      (''/Ac/L2/Energy/Forward'', \<lparr>initial = PyNone, textformat = kwh\<rparr>),
      (''/Ac/L3/Energy/Forward'', \<lparr>initial = PyNone, textformat = kwh\<rparr>),
      (''/Ac/MaxPower'', \<lparr>initial = PyNum (PyInt 0), textformat = fmt_w\<rparr>)]"

definition main :: "string \<Rightarrow> string \<Rightarrow> exn + mainloop" where
  "main file python_version =
     init file python_version ''com.victronenergy.pvinverter.ttyUSB0'' 0 main_paths
       ''Aurora PV-Inverter'' ''ttyUSB0'' 45069"

text \<open>
  One firing of the timeout source: GLib calls \<^verbatim>\<open>_update\<close> and keeps the source
  installed if and only if the callback returns \<^verbatim>\<open>True\<close>; a callback that returns
  \<^verbatim>\<open>False\<close> or lets an exception escape removes the source.
\<close>

definition timer_fire :: "aurora_client \<Rightarrow> mainloop \<Rightarrow> mainloop" where
  "timer_fire client ml =
     (case timeout ml of
        None \<Rightarrow> ml
      | Some ms \<Rightarrow>
          (case update client (pvac_output ml) of
             (Inr True, self') \<Rightarrow> ml\<lparr>pvac_output := self'\<rparr>
           | (r, self') \<Rightarrow> ml\<lparr>pvac_output := self', timeout := None\<rparr>))"

text \<open>
  A write of an external bus caller between two ticks. The caller gets the error, if
  any; the registry keeps its state then. A committed write is notified to observers.
\<close>

definition external_write :: "string \<Rightarrow> pyval \<Rightarrow> mainloop \<Rightarrow> mainloop" where
  "external_write name v ml =
     (case request_write name v (dbusservice (pvac_output ml)) of
        Inl e \<Rightarrow> ml
      | Inr (reg, changes) \<Rightarrow>
          ml\<lparr>pvac_output := (pvac_output ml)\<lparr>dbusservice := reg,
               items_changed := items_changed (pvac_output ml)
                 @ (if changes = [] then [] else [changes])\<rparr>\<rparr>)"

text \<open>The states the process can be in: after start-up, after a tick, after an external write.\<close>

inductive reachable :: "mainloop \<Rightarrow> bool" where
  at_start: "main file python_version = Inr ml \<Longrightarrow> reachable ml"
| after_tick: "reachable ml \<Longrightarrow> reachable (timer_fire client ml)"
| after_write: "reachable ml \<Longrightarrow> reachable (external_write name v ml)"

subsection \<open>Notions used in the statements and proofs\<close>

text \<open>
  The registry after the assignments of a \<^verbatim>\<open>with\<close> block whose names are all
  registered: each cell named in the list gets its value, nothing else changes.
\<close>

fun write_all :: "batch \<Rightarrow> registry \<Rightarrow> registry" where
  "write_all [] reg = reg"
| "write_all ((name, v) # rest) reg =
     write_all rest (case reg name of None \<Rightarrow> reg | Some c \<Rightarrow> reg(name \<mapsto> c\<lparr>cvalue := v\<rparr>))"

text \<open>
  The schema that \<^verbatim>\<open>main\<close> registers and no operation changes: every telemetry
  path of \<open>main_paths\<close> is a writable cell with its formatter and the hook
  \<open>handlechangedvalue\<close>, and \<^verbatim>\<open>/StatusCode\<close> is a cell that is not writable.
\<close>

definition registered :: "registry \<Rightarrow> bool" where
  "registered reg \<longleftrightarrow>
     (\<forall>(p, s) \<in> set main_paths.
        \<exists>c. reg p = Some c \<and> writeable c \<and> onchangecallback c = Some handlechangedvalue
          \<and> gettextcallback c = Some (textformat s))
     \<and> (\<exists>c. reg ''/StatusCode'' = Some c \<and> \<not> writeable c)"

definition inv :: "mainloop \<Rightarrow> bool" where
  "inv ml \<longleftrightarrow> timeout ml = Some 10000 \<and> registered (dbusservice (pvac_output ml))"

text \<open>
  Concrete devices for the worked examples: a reachable, online device that answers the
  channels 1, 2, 3 (voltage, current, power) and the cumulated energy with the given
  replies.
\<close>

definition online_device ::
  "string + rat \<Rightarrow> string + rat \<Rightarrow> string + rat \<Rightarrow> string + rat \<Rightarrow> aurora_client" where
  "online_device v i p e =
     \<lparr>connect_reply = Inr (), time_date_reply = Inr 0,
      measure_reply = (\<lambda>ch. if ch = 1 then v else if ch = 2 then i else if ch = 3 then p
                             else Inl ''unknown measure''),
      cumulated_energy_reply = (\<lambda>ch. e)\<rparr>"

text \<open>The scenario of the specification: V = 230.0, I = 15.0, P = 3450.0, E = 120500.0.\<close>

definition scenario_device :: aurora_client where
  "scenario_device = online_device (Inr 230) (Inr 15) (Inr 3450) (Inr 120500)"

text \<open>A device whose serial port cannot be opened.\<close>

definition absent_device :: aurora_client where
  "absent_device =
     \<lparr>connect_reply = Inl ''could not open port'', time_date_reply = Inr 0,
      measure_reply = (\<lambda>ch. Inr 0), cumulated_energy_reply = (\<lambda>ch. Inr 0)\<rparr>"

text \<open>A device that is reachable and reports that it is offline.\<close>

definition offline_device :: aurora_client where
  "offline_device =
     \<lparr>connect_reply = Inr (), time_date_reply = Inr (- 1),
      measure_reply = (\<lambda>ch. Inr 0), cumulated_energy_reply = (\<lambda>ch. Inr 0)\<rparr>"

text \<open>
  A device on which the power request fails while voltage, current and energy are
  answered with new values.
\<close>

definition power_failure_device :: aurora_client where
  "power_failure_device = online_device (Inr 231) (Inr 16) (Inl ''no answer'') (Inr 130000)"

text \<open>What a bus observer reads at a path: the value and the formatted text.\<close>

definition published :: "mainloop \<Rightarrow> string \<Rightarrow> exn + pyval" where
  "published ml p = get_value (dbusservice (pvac_output ml)) p"

definition shown :: "mainloop \<Rightarrow> string \<Rightarrow> exn + string" where
  "shown ml p = get_text (dbusservice (pvac_output ml)) p"

text \<open>The reading held in the four attributes of the object.\<close>

definition reading :: "dbus_dummy_service \<Rightarrow> number \<times> number \<times> number \<times> number" where
  "reading self = (grid_voltage self, grid_current self, grid_power self, cum_energy_total self)"

text \<open>The calls made on the serial client by one execution of \<^verbatim>\<open>_getInverterData\<close>.\<close>

definition calls_of :: "aurora_client \<Rightarrow> dbus_dummy_service \<Rightarrow> call list" where
  "calls_of client self = snd (snd (getInverterData client self))"


section \<open>Auxiliary lemmas\<close>

subsection \<open>Registration\<close>

lemma floor_rat_numeral: "\<lfloor>(numeral a :: rat) / numeral b\<rfloor> = numeral a div numeral b"
  using floor_divide_of_int_eq [of "numeral a" "numeral b", where ?'a = rat] by simp

lemma add_paths_names_free:
  "add_paths xs reg = Inr reg' \<Longrightarrow> x \<in> set xs \<Longrightarrow> reg (fst x) = None"
proof (induction xs arbitrary: reg)
  case Nil
  then show ?case by simp
next
  case (Cons y ys)
  obtain name v fmt w hook where y: "y = (name, v, fmt, w, hook)"
    by (cases y) auto
  from Cons.prems(1) y obtain reg1 where
    r1: "add_path name v fmt w hook reg = Inr reg1" and rest: "add_paths ys reg1 = Inr reg'"
    by (auto split: sum.splits)
  from r1 have free: "reg name = None"
    and reg1: "reg1 = reg(name \<mapsto> \<lparr>cvalue = v, gettextcallback = fmt, writeable = w, onchangecallback = hook\<rparr>)"
    by (auto simp: add_path_def split: option.splits)
  show ?case
  proof (cases "x = y")
    case True
    with y free show ?thesis by simp
  next
    case False
    with Cons.prems(2) have "x \<in> set ys" by simp
    from Cons.IH [OF rest this] have "reg1 (fst x) = None" .
    with reg1 show ?thesis by (simp split: if_splits)
  qed
qed

lemma add_paths_keeps:
  "add_paths xs reg = Inr reg' \<Longrightarrow> reg n = Some c \<Longrightarrow> reg' n = Some c"
proof (induction xs arbitrary: reg)
  case Nil
  then show ?case by simp
next
  case (Cons y ys)
  obtain name v fmt w hook where y: "y = (name, v, fmt, w, hook)"
    by (cases y) auto
  from Cons.prems(1) y obtain reg1 where
    r1: "add_path name v fmt w hook reg = Inr reg1" and rest: "add_paths ys reg1 = Inr reg'"
    by (auto split: sum.splits)
  from r1 Cons.prems(2) have "reg1 n = Some c"
    by (auto simp: add_path_def split: option.splits)
  with rest show ?case by (rule Cons.IH)
qed

lemma add_paths_lookup:
  "add_paths xs reg = Inr reg' \<Longrightarrow> (n, v, fmt, w, hook) \<in> set xs \<Longrightarrow>
     reg' n = Some \<lparr>cvalue = v, gettextcallback = fmt, writeable = w, onchangecallback = hook\<rparr>"
proof (induction xs arbitrary: reg)
  case Nil
  then show ?case by simp
next
  case (Cons y ys)
  obtain name' v' fmt' w' hook' where y: "y = (name', v', fmt', w', hook')"
    by (cases y) auto
  from Cons.prems(1) y obtain reg1 where
    r1: "add_path name' v' fmt' w' hook' reg = Inr reg1" and rest: "add_paths ys reg1 = Inr reg'"
    by (auto split: sum.splits)
  show ?case
  proof (cases "(n, v, fmt, w, hook) = y")
    case True
    with y r1 have "reg1 n = Some \<lparr>cvalue = v, gettextcallback = fmt, writeable = w, onchangecallback = hook\<rparr>"
      by (auto simp: add_path_def split: option.splits)
    with rest show ?thesis by (rule add_paths_keeps)
  next
    case False
    with Cons.prems(2) have "(n, v, fmt, w, hook) \<in> set ys" by simp
    with rest show ?thesis by (rule Cons.IH)
  qed
qed

lemma main_registry:
  "main f pv = Inr ml \<Longrightarrow>
     timeout ml = Some 10000 \<and>
     add_paths (mandatory_paths f pv 0 ''Aurora PV-Inverter'' ''ttyUSB0'' 45069
                @ telemetry_paths main_paths) Map.empty = Inr (dbusservice (pvac_output ml))"
  unfolding main_def init_def
  by (cases "add_paths (mandatory_paths f pv 0 ''Aurora PV-Inverter'' ''ttyUSB0'' 45069
                @ telemetry_paths main_paths) Map.empty") auto

lemma main_telemetry:
  assumes "main f pv = Inr ml" and "(p, s) \<in> set main_paths"
  shows "dbusservice (pvac_output ml) p =
     Some \<lparr>cvalue = initial s, gettextcallback = Some (textformat s), writeable = True,
           onchangecallback = Some handlechangedvalue\<rparr>"
proof -
  from assms(2) have "(p, initial s, Some (textformat s), True, Some handlechangedvalue)
      \<in> set (telemetry_paths main_paths)"
    unfolding telemetry_paths_def by force
  then show ?thesis
    by (intro add_paths_lookup [OF conjunct2 [OF main_registry [OF assms(1)]]]) simp
qed

lemma main_inv: "main f pv = Inr ml \<Longrightarrow> inv ml"
proof -
  assume m: "main f pv = Inr ml"
  have "dbusservice (pvac_output ml) ''/StatusCode'' =
      Some \<lparr>cvalue = PyNum (PyInt 0), gettextcallback = None, writeable = False,
            onchangecallback = None\<rparr>"
    by (rule add_paths_lookup [OF conjunct2 [OF main_registry [OF m]]])
      (simp add: mandatory_paths_def)
  with main_telemetry [OF m] main_registry [OF m] show ?thesis
    unfolding inv_def registered_def by fastforce
qed

lemma main_ok: "\<exists>ml. main f pv = Inr ml"
  by (simp add: main_def init_def mandatory_paths_def telemetry_paths_def main_paths_def
      add_path_def)

subsection \<open>The registry under a block of assignments\<close>

lemma write_all_lookup:
  "write_all kvs reg p =
     map_option (\<lambda>c. c\<lparr>cvalue := (case map_of (rev kvs) p of None \<Rightarrow> cvalue c | Some v \<Rightarrow> v)\<rparr>) (reg p)"
proof (induction kvs arbitrary: reg)
  case Nil
  show ?case by (cases "reg p") simp_all
next
  case (Cons kv kvs)
  obtain n v where kv: "kv = (n, v)" by (cases kv)
  define reg1 where "reg1 = (case reg n of None \<Rightarrow> reg | Some c \<Rightarrow> reg(n \<mapsto> c\<lparr>cvalue := v\<rparr>))"
  have r1: "reg1 p = map_option (\<lambda>c. if p = n then c\<lparr>cvalue := v\<rparr> else c) (reg p)"
    by (cases "reg n"; cases "reg p") (auto simp: reg1_def)
  have m: "map_of (rev (kv # kvs)) p =
      (case map_of (rev kvs) p of Some v' \<Rightarrow> Some v' | None \<Rightarrow> if p = n then Some v else None)"
    by (simp add: kv map_add_def split: option.splits)
  have w: "write_all (kv # kvs) reg p = write_all kvs reg1 p"
    by (simp add: kv reg1_def)
  show ?case
    unfolding w Cons.IH [of reg1] r1 m
    by (cases "reg p"; cases "map_of (rev kvs) p") auto
qed

lemma write_all_other:
  "p \<notin> fst ` set kvs \<Longrightarrow> write_all kvs reg p = reg p"
proof -
  assume "p \<notin> fst ` set kvs"
  then have "map_of (rev kvs) p = None"
    by (simp add: map_of_eq_None_iff)
  then show ?thesis
    by (cases "reg p") (simp_all add: write_all_lookup)
qed

lemma write_all_value:
  "distinct (map fst kvs) \<Longrightarrow> (p, v) \<in> set kvs \<Longrightarrow> reg p = Some c \<Longrightarrow>
     write_all kvs reg p = Some (c\<lparr>cvalue := v\<rparr>)"
proof -
  assume d: "distinct (map fst kvs)" and m: "(p, v) \<in> set kvs" and r: "reg p = Some c"
  from d have "distinct (map fst (rev kvs))" by (simp flip: rev_map)
  moreover from m have "(p, v) \<in> set (rev kvs)" by simp
  ultimately have "map_of (rev kvs) p = Some v" by (rule map_of_is_SomeI)
  with r show ?thesis by (simp add: write_all_lookup)
qed

lemma publish_all_eq:
  "(\<And>x. x \<in> set kvs \<Longrightarrow> reg (fst x) \<noteq> None) \<Longrightarrow>
     publish_all kvs (reg, b) = Inr (write_all kvs reg, b @ kvs)"
proof (induction kvs arbitrary: reg b)
  case Nil
  show ?case by simp
next
  case (Cons kv kvs)
  obtain n v where kv: "kv = (n, v)" by (cases kv)
  from Cons.prems [of kv] obtain c where c: "reg n = Some c" by (auto simp: kv)
  have "publish_all kvs (reg(n \<mapsto> c\<lparr>cvalue := v\<rparr>), b @ [(n, v)]) =
      Inr (write_all kvs (reg(n \<mapsto> c\<lparr>cvalue := v\<rparr>)), (b @ [(n, v)]) @ kvs)"
    by (rule Cons.IH) (use Cons.prems in auto)
  with c kv show ?case
    by (simp add: publish_def)
qed

lemma registered_schema:
  assumes "registered reg"
    and "\<And>p. rel_option (\<lambda>c c'. gettextcallback c' = gettextcallback c \<and> writeable c' = writeable c
            \<and> onchangecallback c' = onchangecallback c) (reg p) (reg' p)"
  shows "registered reg'"
proof -
  have step: "\<exists>c'. reg' p = Some c' \<and> gettextcallback c' = gettextcallback c \<and> writeable c' = writeable c
            \<and> onchangecallback c' = onchangecallback c" if "reg p = Some c" for p c
    using assms(2) [of p] that by (cases "reg' p") auto
  show ?thesis
    unfolding registered_def
  proof (intro conjI ballI)
    fix x assume x: "x \<in> set main_paths"
    obtain p s where ps: "x = (p, s)" by (cases x)
    from assms(1) x ps obtain c where "reg p = Some c" "writeable c"
      "onchangecallback c = Some handlechangedvalue" "gettextcallback c = Some (textformat s)"
      unfolding registered_def by fastforce
    with step [of p c] ps
    show "case x of (p, s) \<Rightarrow> \<exists>c. reg' p = Some c \<and> writeable c \<and>
        onchangecallback c = Some handlechangedvalue \<and> gettextcallback c = Some (textformat s)"
      by auto
  next
    from assms(1) obtain c where "reg ''/StatusCode'' = Some c" "\<not> writeable c"
      unfolding registered_def by auto
    with step [of "''/StatusCode''" c]
    show "\<exists>c. reg' ''/StatusCode'' = Some c \<and> \<not> writeable c" by auto
  qed
qed

lemma registered_write_all: "registered reg \<Longrightarrow> registered (write_all kvs reg)"
proof (erule registered_schema)
  fix p
  show "rel_option (\<lambda>c c'. gettextcallback c' = gettextcallback c \<and> writeable c' = writeable c
            \<and> onchangecallback c' = onchangecallback c) (reg p) (write_all kvs reg p)"
    by (cases "reg p") (simp_all add: write_all_lookup)
qed

lemma registered_request_write:
  "registered reg \<Longrightarrow> request_write name v reg = Inr (reg', changes) \<Longrightarrow> registered reg'"
  by (erule registered_schema)
    (auto simp: request_write_def option.rel_refl split: option.splits if_splits)

lemma update_items_names:
  "map fst (update_items self) = map fst main_paths @ [''/StatusCode'']"
  by (simp add: update_items_def main_paths_def)

lemma registered_update_items:
  "registered reg \<Longrightarrow> x \<in> set (update_items self) \<Longrightarrow> reg (fst x) \<noteq> None"
proof -
  assume r: "registered reg" and x: "x \<in> set (update_items self)"
  from x have "fst x \<in> set (map fst (update_items self))" by simp
  then have "fst x \<in> fst ` set main_paths \<or> fst x = ''/StatusCode''"
    unfolding update_items_names by auto
  with r show ?thesis unfolding registered_def by fastforce
qed

lemma update_items_distinct: "distinct (map fst (update_items self))"
  by (simp add: update_items_def)

subsection \<open>One cycle and the reachable states\<close>

lemma getInverterData_try_frame:
  "getInverterData_try client self = (r, self', calls) \<Longrightarrow>
     dbusservice self' = dbusservice self \<and> items_changed self' = items_changed self
     \<and> (case r of Inl e \<Rightarrow> \<exists>m. e = AuroraError m | Inr u \<Rightarrow> True)"
  by (auto simp: getInverterData_try_def split: sum.splits if_splits)

lemma getInverterData_returns:
  "\<exists>self' calls. getInverterData client self = (Inr True, self', calls)
     \<and> dbusservice self' = dbusservice self \<and> items_changed self' = items_changed self"
proof -
  obtain r self' calls where t: "getInverterData_try client self = (r, self', calls)"
    by (cases "getInverterData_try client self") auto
  from getInverterData_try_frame [OF t] t show ?thesis
    by (auto simp: getInverterData_def split: sum.splits exn.splits)
qed

lemma update_eq:
  assumes "registered (dbusservice self)"
    and "getInverterData client self = (r, self1, calls)"
  shows "update client self =
     (Inr True, self1\<lparr>dbusservice := write_all (update_items self1) (dbusservice self),
                     items_changed := items_changed self @ [update_items self1]\<rparr>)"
proof -
  from getInverterData_returns [of client self] assms(2)
  have r: "r = Inr True" and d: "dbusservice self1 = dbusservice self"
    and i: "items_changed self1 = items_changed self"
    by auto
  have "publish_all (update_items self1) (dbusservice self1, []) =
      Inr (write_all (update_items self1) (dbusservice self1), [] @ update_items self1)"
    by (rule publish_all_eq) (use assms(1) d in \<open>auto dest: registered_update_items\<close>)
  with assms(2) r d i show ?thesis
    by (simp add: update_def with_dbusservice_def)
qed

lemma update_returns_True: "registered (dbusservice self) \<Longrightarrow> fst (update client self) = Inr True"
  by (cases "getInverterData client self") (simp add: update_eq)

lemma update_registered:
  "registered (dbusservice self) \<Longrightarrow> registered (dbusservice (snd (update client self)))"
  by (cases "getInverterData client self") (simp add: update_eq registered_write_all)

lemma timer_fire_inv: "inv ml \<Longrightarrow> inv (timer_fire client ml)"
proof -
  assume a: "inv ml"
  then have t: "timeout ml = Some 10000" and r: "registered (dbusservice (pvac_output ml))"
    by (simp_all add: inv_def)
  obtain res self' where u: "update client (pvac_output ml) = (res, self')"
    by (cases "update client (pvac_output ml)")
  from update_returns_True [OF r, of client] u have res: "res = Inr True" by simp
  from update_registered [OF r, of client] u have "registered (dbusservice self')" by simp
  with t u res show ?thesis
    by (simp add: timer_fire_def inv_def)
qed

lemma external_write_inv: "inv ml \<Longrightarrow> inv (external_write name v ml)"
  by (auto simp: external_write_def inv_def split: sum.splits dest: registered_request_write)

lemma reachable_inv: "reachable ml \<Longrightarrow> inv ml"
proof (induction rule: reachable.induct)
  case (at_start f pv ml)
  then show ?case by (rule main_inv)
next
  case (after_tick ml client)
  then show ?case by (simp add: timer_fire_inv)
next
  case (after_write ml name v)
  then show ?case by (simp add: external_write_inv)
qed

lemma reachable_registered: "reachable ml \<Longrightarrow> registered (dbusservice (pvac_output ml))"
  by (drule reachable_inv) (simp add: inv_def)

lemma timer_fire_eq:
  "reachable ml \<Longrightarrow> timer_fire client ml = ml\<lparr>pvac_output := snd (update client (pvac_output ml))\<rparr>"
proof -
  assume a: "reachable ml"
  then have t: "timeout ml = Some 10000" and r: "registered (dbusservice (pvac_output ml))"
    using reachable_inv [OF a] by (simp_all add: inv_def)
  obtain res self' where u: "update client (pvac_output ml) = (res, self')"
    by (cases "update client (pvac_output ml)")
  from update_returns_True [OF r, of client] u have res: "res = Inr True" by simp
  with t u show ?thesis
    by (simp add: timer_fire_def)
qed

text \<open>The value of a path after a tick.\<close>

lemma update_get_value:
  assumes "registered (dbusservice self)"
    and "getInverterData client self = (r, self1, calls)"
    and "(p, v) \<in> set (update_items self1)"
  shows "get_value (dbusservice (snd (update client self))) p = Inr v"
proof -
  from registered_update_items [OF assms(1) assms(3)]
  obtain c where c: "dbusservice self p = Some c" by auto
  have "write_all (update_items self1) (dbusservice self) p = Some (c\<lparr>cvalue := v\<rparr>)"
    using update_items_distinct assms(3) c by (rule write_all_value)
  then show ?thesis
    by (simp add: update_eq [OF assms(1,2)] get_value_def)
qed

lemma update_other_path:
  assumes "registered (dbusservice self)"
    and "p \<notin> set (map fst main_paths)" and "p \<noteq> ''/StatusCode''"
  shows "dbusservice (snd (update client self)) p = dbusservice self p"
proof -
  obtain r self1 calls where g: "getInverterData client self = (r, self1, calls)"
    by (cases "getInverterData client self")
  from assms(2,3) have "p \<notin> set (map fst (update_items self1))"
    unfolding update_items_names by simp
  then have "write_all (update_items self1) (dbusservice self) p = dbusservice self p"
    by (intro write_all_other) simp
  then show ?thesis
    by (simp add: update_eq [OF assms(1) g])
qed

subsection \<open>Values after a tick\<close>

lemma published_after_tick:
  assumes "reachable ml"
    and "getInverterData client (pvac_output ml) = (r, self1, calls)"
    and "(p, v) \<in> set (update_items self1)"
  shows "published (timer_fire client ml) p = Inr v"
  using update_get_value [OF reachable_registered [OF assms(1)] assms(2,3)]
  by (simp add: published_def timer_fire_eq [OF assms(1)])

lemma getInverterData_measured:
  assumes "connect_reply client = Inr u" and "time_date_reply client = Inr t" and "t \<noteq> - 1"
    and "measure_reply client 1 = Inr V" and "measure_reply client 2 = Inr I"
    and "measure_reply client 3 = Inr P"
    and "getInverterData client self = (r, self1, calls)"
  shows "grid_voltage self1 = PyFloat V \<and> grid_current self1 = PyFloat I \<and> grid_power self1 = PyFloat P
     \<and> (\<forall>E. cumulated_energy_reply client 5 = Inr E \<longrightarrow> cum_energy_total self1 = PyFloat E)"
  using assms
  by (auto simp: getInverterData_def getInverterData_try_def split: sum.splits)

lemma main_published:
  "main f pv = Inr ml \<Longrightarrow> (p, s) \<in> set main_paths \<Longrightarrow> published ml p = Inr (initial s)"
  by (simp add: published_def get_value_def main_telemetry)

lemma round_float_examples:
  "round_float 3450 2 = 3450" "round_float 15 2 = 15" "round_float 230 2 = 230"
  "round_float 5 2 = 5" "round_float 1150 2 = 1150"
  by (simp_all add: round_float_def round_half_even_def)

section \<open>The claims\<close>

subsection \<open>Derivation of the per-phase values\<close>





subsection \<open>The two constants and the change-batch\<close>







subsection \<open>Closing the serial client\<close>

lemma calls_of_cases:
  "calls_of client self =
     (case connect_reply client of
        Inl m \<Rightarrow> [Connect, Close]
      | Inr u \<Rightarrow>
     (case time_date_reply client of
        Inl m \<Rightarrow> [Connect, Time_date, Close]
      | Inr t \<Rightarrow>
        if t = - 1 then [Connect, Time_date, Close, Close]
        else
     (case measure_reply client 1 of
        Inl m \<Rightarrow> [Connect, Time_date, Measure 1, Close]
      | Inr v \<Rightarrow>
     (case measure_reply client 2 of
        Inl m \<Rightarrow> [Connect, Time_date, Measure 1, Measure 2, Close]
      | Inr i \<Rightarrow>
     (case measure_reply client 3 of
        Inl m \<Rightarrow> [Connect, Time_date, Measure 1, Measure 2, Measure 3, Close]
      | Inr p \<Rightarrow>
          [Connect, Time_date, Measure 1, Measure 2, Measure 3, Cumulated_energy 5, Close])))))"
  by (simp add: calls_of_def getInverterData_def getInverterData_try_def split: sum.splits)

text \<open>
  Claim C7, as amended. Every execution of \<^verbatim>\<open>_getInverterData\<close> calls
  \<^verbatim>\<open>close()\<close> on the client as its last operation: after the full sequence of
  requests, after an offline answer, after any failed request, and also when
  \<^verbatim>\<open>connect()\<close> itself failed, where the calls are exactly \<open>connect, close\<close>.
\<close>

theorem c7_always_closed:
  "calls_of client self \<noteq> [] \<and> last (calls_of client self) = Close
   \<and> hd (calls_of client self) = Connect
   \<and> (\<forall>m. connect_reply client = Inl m \<longrightarrow> calls_of client self = [Connect, Close])"
  unfolding calls_of_cases
  by (simp split: sum.splits)

theorem c7_always_closed_witness:
  "\<forall>self. calls_of absent_device self = [Connect, Close]
     \<and> last (calls_of absent_device self) = Close
     \<and> last (calls_of scenario_device self) = Close
     \<and> last (calls_of offline_device self) = Close"
proof
  fix self
  have "connect_reply absent_device = Inl ''could not open port''"
    by (simp add: absent_device_def)
  with c7_always_closed [of absent_device self] c7_always_closed [of scenario_device self]
    c7_always_closed [of offline_device self]
  show "calls_of absent_device self = [Connect, Close]
     \<and> last (calls_of absent_device self) = Close
     \<and> last (calls_of scenario_device self) = Close
     \<and> last (calls_of offline_device self) = Close"
    by simp
qed

text \<open>
  The claim as stated excepts the path on which \<^verbatim>\<open>connect()\<close> fails. On a device
  whose port cannot be opened the client is closed all the same.
\<close>

theorem c7_close_after_failed_open_counterexample:
  "\<forall>self. connect_reply absent_device = Inl ''could not open port''
     \<and> calls_of absent_device self = [Connect, Close]
     \<and> Close \<in> set (calls_of absent_device self)"
  by (simp add: calls_of_cases absent_device_def)

subsection \<open>The scheduler\<close>




subsection \<open>External writes\<close>

text \<open>
  Claim C10. The hook \<^verbatim>\<open>_handlechangedvalue\<close> returns acceptance for every path and
  value. In every reachable state, every telemetry path \<open>p\<close> of \<^verbatim>\<open>main\<close> is
  a writable cell with this hook, and for every value \<open>v\<close> the external write of \<open>v\<close>
  to \<open>p\<close> succeeds and commits \<open>v\<close> as given: only the value of the cell at \<open>p\<close>
  changes, a read of \<open>p\<close> returns \<open>v\<close>, and the text is the path's formatter applied
  to \<open>v\<close>.
\<close>

theorem c10_write_accepted:
  assumes "reachable ml" and "(p, s) \<in> set main_paths"
  shows "(\<forall>q w. handlechangedvalue q w)
    \<and> (\<exists>c. dbusservice (pvac_output ml) p = Some c
          \<and> writeable c \<and> onchangecallback c = Some handlechangedvalue
          \<and> request_write p v (dbusservice (pvac_output ml))
               = Inr ((dbusservice (pvac_output ml))(p \<mapsto> c\<lparr>cvalue := v\<rparr>), [(p, v)]))
    \<and> published (external_write p v ml) p = Inr v
    \<and> shown (external_write p v ml) p = textformat s p v"
proof -
  from reachable_registered [OF assms(1)] assms(2) obtain c where
    c: "dbusservice (pvac_output ml) p = Some c" "writeable c"
      "onchangecallback c = Some handlechangedvalue" "gettextcallback c = Some (textformat s)"
    unfolding registered_def by fastforce
  then have w: "request_write p v (dbusservice (pvac_output ml))
      = Inr ((dbusservice (pvac_output ml))(p \<mapsto> c\<lparr>cvalue := v\<rparr>), [(p, v)])"
    by (simp add: request_write_def handlechangedvalue_def)
  with c show ?thesis
    by (simp add: handlechangedvalue_def external_write_def published_def shown_def
        get_value_def get_text_def)
qed

text \<open>
  The write of 42.5 to \<^verbatim>\<open>/Ac/Power\<close> right after start-up: the value read back is
  42.5 and the text is \<^verbatim>\<open>42.5W\<close>.
\<close>

theorem c10_write_accepted_witness:
  "case main ''dbus_aurora_pvinverter.py'' ''3.8.13'' of
     Inl e \<Rightarrow> False
   | Inr ml \<Rightarrow>
       reachable ml
     \<and> (''/Ac/Power'', \<lparr>initial = PyNum (PyInt 0), textformat = fmt_w\<rparr>) \<in> set main_paths
     \<and> published (external_write ''/Ac/Power'' (PyNum (PyFloat (85 / 2))) ml) ''/Ac/Power''
          = Inr (PyNum (PyFloat (85 / 2)))
     \<and> shown (external_write ''/Ac/Power'' (PyNum (PyFloat (85 / 2))) ml) ''/Ac/Power''
          = Inr ''42.5W''"
proof -
  obtain ml where m: "main ''dbus_aurora_pvinverter.py'' ''3.8.13'' = Inr ml"
    using main_ok by blast
  then have r: "reachable ml" by (rule reachable.at_start)
  have p: "(''/Ac/Power'', \<lparr>initial = PyNum (PyInt 0), textformat = fmt_w\<rparr>) \<in> set main_paths"
    by (simp add: main_paths_def)
  have f: "fmt_w ''/Ac/Power'' (PyNum (PyFloat (85 / 2))) = Inr ''42.5W''"
    by (simp add: fmt_w_def format_rounded_def round_float_def round_half_even_def
        str_float_def str_nat.simps floor_rat_numeral Let_def)
  from c10_write_accepted [OF r p, of "PyNum (PyFloat (85 / 2))"] r p f
  show ?thesis
    by (simp add: m)
qed

subsection \<open>The reading across ticks\<close>

lemma getInverterData_self_cases:
  "fst (snd (getInverterData client self)) =
     (case connect_reply client of
        Inl m \<Rightarrow> self
      | Inr u \<Rightarrow>
     (case time_date_reply client of
        Inl m \<Rightarrow> self
      | Inr t \<Rightarrow>
        if t = - 1 then self
        else
     (case measure_reply client 1 of
        Inl m \<Rightarrow> self
      | Inr v \<Rightarrow>
     (case measure_reply client 2 of
        Inl m \<Rightarrow> self\<lparr>grid_voltage := PyFloat v\<rparr>
      | Inr i \<Rightarrow>
     (case measure_reply client 3 of
        Inl m \<Rightarrow> self\<lparr>grid_voltage := PyFloat v, grid_current := PyFloat i\<rparr>
      | Inr p \<Rightarrow>
     (case cumulated_energy_reply client 5 of
        Inl m \<Rightarrow> self\<lparr>grid_voltage := PyFloat v, grid_current := PyFloat i,
                       grid_power := PyFloat p\<rparr>
      | Inr e \<Rightarrow> self\<lparr>grid_voltage := PyFloat v, grid_current := PyFloat i,
                       grid_power := PyFloat p, cum_energy_total := PyFloat e\<rparr>))))))"
  by (simp add: getInverterData_def getInverterData_try_def split: sum.splits)

lemma update_items_reading: "reading s = reading s' \<Longrightarrow> update_items s = update_items s'"
  by (simp add: reading_def update_items_def)

lemma getInverterData_reading_cong:
  "reading self = reading self' \<Longrightarrow>
     reading (fst (snd (getInverterData client self)))
       = reading (fst (snd (getInverterData client self')))"
  unfolding getInverterData_self_cases
  by (simp add: reading_def split: sum.splits)

lemma getInverterData_idem:
  "reading (fst (snd (getInverterData client (fst (snd (getInverterData client self))))))
     = reading (fst (snd (getInverterData client self)))"
  unfolding getInverterData_self_cases
  by (simp add: reading_def split: sum.splits)

lemma getInverterData_no_connection:
  "connect_reply client = Inl m \<Longrightarrow> fst (snd (getInverterData client self)) = self"
  by (simp add: getInverterData_self_cases)

lemma write_all_idem: "write_all kvs (write_all kvs reg) = write_all kvs reg"
proof
  fix p
  show "write_all kvs (write_all kvs reg) p = write_all kvs reg p"
    by (cases "reg p"; cases "map_of (rev kvs) p") (simp_all add: write_all_lookup)
qed

lemma tick_state:
  assumes "reachable ml"
  shows "reading (pvac_output (timer_fire client ml))
           = reading (fst (snd (getInverterData client (pvac_output ml))))"
    and "dbusservice (pvac_output (timer_fire client ml))
           = write_all (update_items (fst (snd (getInverterData client (pvac_output ml)))))
               (dbusservice (pvac_output ml))"
proof -
  obtain r self1 calls where g: "getInverterData client (pvac_output ml) = (r, self1, calls)"
    by (cases "getInverterData client (pvac_output ml)")
  show "reading (pvac_output (timer_fire client ml))
           = reading (fst (snd (getInverterData client (pvac_output ml))))"
    by (simp add: timer_fire_eq [OF assms]
        update_eq [OF reachable_registered [OF assms] g] g reading_def)
  show "dbusservice (pvac_output (timer_fire client ml))
           = write_all (update_items (fst (snd (getInverterData client (pvac_output ml)))))
               (dbusservice (pvac_output ml))"
    by (simp add: timer_fire_eq [OF assms]
        update_eq [OF reachable_registered [OF assms] g] g)
qed

text \<open>
  A tick that obtains the reading the object already holds, right after a tick, leaves
  the registry as it is.
\<close>

lemma second_tick_registry:
  assumes "reachable ml"
    and "reading (fst (snd (getInverterData client (pvac_output (timer_fire client0 ml)))))
           = reading (pvac_output (timer_fire client0 ml))"
  shows "dbusservice (pvac_output (timer_fire client (timer_fire client0 ml)))
           = dbusservice (pvac_output (timer_fire client0 ml))"
proof -
  have r1: "reachable (timer_fire client0 ml)"
    using assms(1) by (rule reachable.after_tick)
  have "update_items (fst (snd (getInverterData client (pvac_output (timer_fire client0 ml)))))
      = update_items (fst (snd (getInverterData client0 (pvac_output ml))))"
    by (rule update_items_reading) (simp add: assms(2) tick_state(1) [OF assms(1)])
  then show ?thesis
    by (simp add: tick_state(2) [OF r1] tick_state(2) [OF assms(1)] write_all_idem)
qed

lemma registered_telemetry:
  "registered reg \<Longrightarrow> (p, s) \<in> set main_paths \<Longrightarrow>
     \<exists>c. reg p = Some c \<and> writeable c \<and> onchangecallback c = Some handlechangedvalue
       \<and> gettextcallback c = Some (textformat s)"
  unfolding registered_def by fastforce

text \<open>
  Claim C9. In every reachable state, two ticks in succession on a device that gives the
  same replies leave the registry after the second tick identical to the registry after
  the first, and the reading held by the object as well; so every path reads the same
  value and the same formatted text after both.
\<close>

theorem c9_idempotent:
  assumes "reachable ml"
  shows "dbusservice (pvac_output (timer_fire client (timer_fire client ml)))
           = dbusservice (pvac_output (timer_fire client ml))
    \<and> reading (pvac_output (timer_fire client (timer_fire client ml)))
           = reading (pvac_output (timer_fire client ml))
    \<and> (\<forall>p. published (timer_fire client (timer_fire client ml)) p
              = published (timer_fire client ml) p)
    \<and> (\<forall>p. shown (timer_fire client (timer_fire client ml)) p
              = shown (timer_fire client ml) p)"
proof -
  have r1: "reachable (timer_fire client ml)"
    using assms by (rule reachable.after_tick)
  have same: "reading (fst (snd (getInverterData client (pvac_output (timer_fire client ml)))))
      = reading (pvac_output (timer_fire client ml))"
  proof -
    have "reading (fst (snd (getInverterData client (pvac_output (timer_fire client ml)))))
        = reading (fst (snd (getInverterData client
            (fst (snd (getInverterData client (pvac_output ml)))))))"
      by (rule getInverterData_reading_cong) (rule tick_state(1) [OF assms])
    then show ?thesis
      by (simp add: getInverterData_idem tick_state(1) [OF assms])
  qed
  have reg: "dbusservice (pvac_output (timer_fire client (timer_fire client ml)))
      = dbusservice (pvac_output (timer_fire client ml))"
    using assms same by (rule second_tick_registry)
  have rd: "reading (pvac_output (timer_fire client (timer_fire client ml)))
      = reading (pvac_output (timer_fire client ml))"
    by (simp add: tick_state(1) [OF r1] same)
  from reg rd show ?thesis
    by (simp add: published_def shown_def)
qed

text \<open>
  The scenario of the specification published twice after start-up: the total power reads
  3450.0 both times, and its text is \<^verbatim>\<open>3450.0W\<close> both times.
\<close>

theorem c9_idempotent_witness:
  "case main ''dbus_aurora_pvinverter.py'' ''3.8.13'' of
     Inl e \<Rightarrow> False
   | Inr ml \<Rightarrow>
       reachable ml
     \<and> published (timer_fire scenario_device ml) ''/Ac/Power'' = Inr (PyNum (PyFloat 3450))
     \<and> published (timer_fire scenario_device (timer_fire scenario_device ml)) ''/Ac/Power''
          = Inr (PyNum (PyFloat 3450))
     \<and> shown (timer_fire scenario_device ml) ''/Ac/Power'' = Inr ''3450.0W''
     \<and> shown (timer_fire scenario_device (timer_fire scenario_device ml)) ''/Ac/Power''
          = Inr ''3450.0W''"
proof -
  obtain ml where m: "main ''dbus_aurora_pvinverter.py'' ''3.8.13'' = Inr ml"
    using main_ok by blast
  then have r: "reachable ml" by (rule reachable.at_start)
  obtain res self1 calls where
    g: "getInverterData scenario_device (pvac_output ml) = (res, self1, calls)"
    by (cases "getInverterData scenario_device (pvac_output ml)")
  have "connect_reply scenario_device = Inr ()" "time_date_reply scenario_device = Inr 0"
    "(0::int) \<noteq> - 1" "measure_reply scenario_device 1 = Inr 230"
    "measure_reply scenario_device 2 = Inr 15" "measure_reply scenario_device 3 = Inr 3450"
    by (simp_all add: scenario_device_def online_device_def)
  from getInverterData_measured [OF this g] have a: "grid_power self1 = PyFloat 3450"
    by simp
  have "(''/Ac/Power'', PyNum (PyFloat 3450)) \<in> set (update_items self1)"
    by (simp add: update_items_def a round_float_examples)
  with r g have v: "published (timer_fire scenario_device ml) ''/Ac/Power''
      = Inr (PyNum (PyFloat 3450))"
    by (rule published_after_tick)
  have "(''/Ac/Power'', \<lparr>initial = PyNum (PyInt 0), textformat = fmt_w\<rparr>) \<in> set main_paths"
    by (simp add: main_paths_def)
  from registered_telemetry [OF reachable_registered [OF reachable.after_tick [OF r]] this]
  obtain c where c: "dbusservice (pvac_output (timer_fire scenario_device ml)) ''/Ac/Power'' = Some c"
    "gettextcallback c = Some fmt_w"
    by auto
  with v have cv: "cvalue c = PyNum (PyFloat 3450)"
    by (simp add: published_def get_value_def)
  have "round_float 3450 (Suc 0) = 3450"
    by (simp add: round_float_def round_half_even_def)
  moreover have "str_float 3450 = ''3450.0''"
    by (simp add: str_float_def str_nat.simps Let_def)
  ultimately have f: "fmt_w ''/Ac/Power'' (PyNum (PyFloat 3450)) = Inr ''3450.0W''"
    by (simp add: fmt_w_def format_rounded_def)
  from c cv f have s: "shown (timer_fire scenario_device ml) ''/Ac/Power'' = Inr ''3450.0W''"
    by (simp add: shown_def get_text_def)
  from c9_idempotent [OF r, of scenario_device]
  have "published (timer_fire scenario_device (timer_fire scenario_device ml)) ''/Ac/Power''
      = published (timer_fire scenario_device ml) ''/Ac/Power''"
    and "shown (timer_fire scenario_device (timer_fire scenario_device ml)) ''/Ac/Power''
      = shown (timer_fire scenario_device ml) ''/Ac/Power''"
    by simp_all
  with v s r show ?thesis
    by (simp add: m)
qed

subsection \<open>Cycles without a complete reading\<close>

lemma main_reading:
  "main f pv = Inr ml \<Longrightarrow> reading (pvac_output ml) = (PyInt 0, PyInt 0, PyInt 0, PyInt 0)"
  unfolding main_def init_def
  by (cases "add_paths (mandatory_paths f pv 0 ''Aurora PV-Inverter'' ''ttyUSB0'' 45069
                @ telemetry_paths main_paths) Map.empty") (auto simp: reading_def)

text \<open>Right after a tick the registry holds what \<^verbatim>\<open>_update\<close> derives from the object's reading.\<close>

lemma published_own_items:
  assumes "reachable ml"
    and "(p, v) \<in> set (update_items (pvac_output (timer_fire client0 ml)))"
  shows "published (timer_fire client0 ml) p = Inr v"
proof -
  obtain r self1 calls where g: "getInverterData client0 (pvac_output ml) = (r, self1, calls)"
    by (cases "getInverterData client0 (pvac_output ml)")
  have "update_items (pvac_output (timer_fire client0 ml)) = update_items self1"
    by (rule update_items_reading) (simp add: tick_state(1) [OF assms(1)] g)
  with assms(2) have "(p, v) \<in> set (update_items self1)" by simp
  with assms(1) g show ?thesis by (rule published_after_tick)
qed

lemma published_other_path:
  assumes "reachable ml" and "p \<notin> set (map fst main_paths)" and "p \<noteq> ''/StatusCode''"
  shows "published (timer_fire client ml) p = published ml p"
  by (simp add: published_def get_value_def timer_fire_eq [OF assms(1)]
      update_other_path [OF reachable_registered [OF assms(1)] assms(2,3)])

lemma no_connection_second_tick:
  assumes "reachable ml" and "connect_reply client = Inl m"
  shows "dbusservice (pvac_output (timer_fire client (timer_fire client0 ml)))
           = dbusservice (pvac_output (timer_fire client0 ml))"
  using assms(1)
  by (rule second_tick_registry) (simp add: getInverterData_no_connection [OF assms(2)])

text \<open>
  Claim C5, as amended. In every reachable state, a cycle in which the port cannot be
  opened leaves the reading held by the object as it is and republishes the seventeen
  paths from it; the paths that \<^verbatim>\<open>_update\<close> does not write keep their values. When
  the cycle follows another tick directly, it changes no value in the registry at all,
  the two constants included.
\<close>

theorem c5_connection_error:
  assumes "reachable ml" and "connect_reply client = Inl m"
  shows "reading (pvac_output (timer_fire client ml)) = reading (pvac_output ml)
    \<and> (\<forall>p. p \<notin> set (map fst main_paths) \<and> p \<noteq> ''/StatusCode'' \<longrightarrow>
          published (timer_fire client ml) p = published ml p)
    \<and> dbusservice (pvac_output (timer_fire client (timer_fire client0 ml)))
         = dbusservice (pvac_output (timer_fire client0 ml))
    \<and> (\<forall>p. published (timer_fire client (timer_fire client0 ml)) p
              = published (timer_fire client0 ml) p)"
proof -
  have "reading (pvac_output (timer_fire client ml)) = reading (pvac_output ml)"
    by (simp add: tick_state(1) [OF assms(1)] getInverterData_no_connection [OF assms(2)])
  moreover have "\<forall>p. p \<notin> set (map fst main_paths) \<and> p \<noteq> ''/StatusCode'' \<longrightarrow>
      published (timer_fire client ml) p = published ml p"
    using published_other_path [OF assms(1)] by blast
  moreover note reg = no_connection_second_tick [OF assms, of client0]
  moreover from reg have "\<forall>p. published (timer_fire client (timer_fire client0 ml)) p
      = published (timer_fire client0 ml) p"
    by (simp add: published_def)
  ultimately show ?thesis by blast
qed

lemma scenario_first_tick:
  assumes "main f pv = Inr ml"
  shows "reading (pvac_output (timer_fire scenario_device ml))
     = (PyFloat 230, PyFloat 15, PyFloat 3450, PyFloat 120500)"
proof -
  have "reading (pvac_output (timer_fire scenario_device ml))
      = reading (fst (snd (getInverterData scenario_device (pvac_output ml))))"
    by (rule tick_state(1) [OF reachable.at_start [OF assms]])
  also have "\<dots> = (PyFloat 230, PyFloat 15, PyFloat 3450, PyFloat 120500)"
    by (simp add: getInverterData_self_cases scenario_device_def online_device_def reading_def)
  finally show ?thesis .
qed

lemma scenario_energy_published:
  assumes "main f pv = Inr ml"
  shows "published (timer_fire scenario_device ml) ''/Ac/Energy/Forward''
     = Inr (PyNum (PyFloat (241 / 2)))"
proof -
  have "round_float (120500 / 1000) 2 = 241 / 2"
    by (simp add: round_float_def round_half_even_def floor_rat_numeral)
  with scenario_first_tick [OF assms]
  have "(''/Ac/Energy/Forward'', PyNum (PyFloat (241 / 2)))
      \<in> set (update_items (pvac_output (timer_fire scenario_device ml)))"
    by (simp add: update_items_def reading_def)
  with reachable.at_start [OF assms] show ?thesis
    by (rule published_own_items)
qed

text \<open>
  A port that cannot be opened in the tick after the scenario of the specification: the
  forward energy still reads 120.5.
\<close>

theorem c5_connection_error_witness:
  "case main ''dbus_aurora_pvinverter.py'' ''3.8.13'' of
     Inl e \<Rightarrow> False
   | Inr ml \<Rightarrow>
       reachable ml
     \<and> connect_reply absent_device = Inl ''could not open port''
     \<and> published (timer_fire scenario_device ml) ''/Ac/Energy/Forward''
          = Inr (PyNum (PyFloat (241 / 2)))
     \<and> published (timer_fire absent_device (timer_fire scenario_device ml)) ''/Ac/Energy/Forward''
          = Inr (PyNum (PyFloat (241 / 2)))"
proof -
  obtain ml where m: "main ''dbus_aurora_pvinverter.py'' ''3.8.13'' = Inr ml"
    using main_ok by blast
  then have r: "reachable ml" by (rule reachable.at_start)
  have a: "connect_reply absent_device = Inl ''could not open port''"
    by (simp add: absent_device_def)
  from c5_connection_error [OF r a, of scenario_device]
  have "published (timer_fire absent_device (timer_fire scenario_device ml)) ''/Ac/Energy/Forward''
      = published (timer_fire scenario_device ml) ''/Ac/Energy/Forward''"
    by simp
  with scenario_energy_published [OF m] r a show ?thesis
    by (simp add: m)
qed

text \<open>
  The claim as stated includes the very first cycle after start-up. There the object
  holds the integer 0 in each attribute, and the cycle publishes the values derived from
  it: the forward energy changes from the no-value sentinel to 0.0.
\<close>

theorem c5_first_cycle_counterexample:
  "case main ''dbus_aurora_pvinverter.py'' ''3.8.13'' of
     Inl e \<Rightarrow> False
   | Inr ml \<Rightarrow>
       connect_reply absent_device = Inl ''could not open port''
     \<and> published ml ''/Ac/Energy/Forward'' = Inr PyNone
     \<and> published (timer_fire absent_device ml) ''/Ac/Energy/Forward'' = Inr (PyNum (PyFloat 0))
     \<and> published (timer_fire absent_device ml) ''/Ac/Energy/Forward''
          \<noteq> published ml ''/Ac/Energy/Forward''"
proof -
  obtain ml where m: "main ''dbus_aurora_pvinverter.py'' ''3.8.13'' = Inr ml"
    using main_ok by blast
  then have r: "reachable ml" by (rule reachable.at_start)
  have a: "connect_reply absent_device = Inl ''could not open port''"
    by (simp add: absent_device_def)
  have before: "published ml ''/Ac/Energy/Forward'' = Inr PyNone"
    using main_published [OF m, of "''/Ac/Energy/Forward''" "\<lparr>initial = PyNone, textformat = kwh\<rparr>"]
    by (simp add: main_paths_def)
  have "reading (pvac_output (timer_fire absent_device ml)) = (PyInt 0, PyInt 0, PyInt 0, PyInt 0)"
    by (simp add: tick_state(1) [OF r] getInverterData_no_connection [OF a] main_reading [OF m])
  moreover have "round_float 0 2 = 0"
    by (simp add: round_float_def round_half_even_def)
  ultimately have "(''/Ac/Energy/Forward'', PyNum (PyFloat 0))
      \<in> set (update_items (pvac_output (timer_fire absent_device ml)))"
    by (simp add: update_items_def reading_def)
  with r have "published (timer_fire absent_device ml) ''/Ac/Energy/Forward''
      = Inr (PyNum (PyFloat 0))"
    by (rule published_own_items)
  with before a show ?thesis
    by (simp add: m)
qed

subsection \<open>A failing measurement\<close>

text \<open>The attributes after an acquisition on a reachable, online device.\<close>

lemma getInverterData_online:
  assumes "connect_reply client = Inr u" and "time_date_reply client = Inr t" and "t \<noteq> - 1"
  shows "fst (snd (getInverterData client self)) =
     (case measure_reply client 1 of
        Inl m \<Rightarrow> self
      | Inr v \<Rightarrow>
     (case measure_reply client 2 of
        Inl m \<Rightarrow> self\<lparr>grid_voltage := PyFloat v\<rparr>
      | Inr i \<Rightarrow>
     (case measure_reply client 3 of
        Inl m \<Rightarrow> self\<lparr>grid_voltage := PyFloat v, grid_current := PyFloat i\<rparr>
      | Inr p \<Rightarrow>
     (case cumulated_energy_reply client 5 of
        Inl m \<Rightarrow> self\<lparr>grid_voltage := PyFloat v, grid_current := PyFloat i,
                       grid_power := PyFloat p\<rparr>
      | Inr e \<Rightarrow> self\<lparr>grid_voltage := PyFloat v, grid_current := PyFloat i,
                       grid_power := PyFloat p, cum_energy_total := PyFloat e\<rparr>))))"
  using assms by (simp add: getInverterData_self_cases)

lemma reading_after_failure:
  assumes "reachable ml"
    and "connect_reply client = Inr u" and "time_date_reply client = Inr t" and "t \<noteq> - 1"
  shows "measure_reply client 1 = Inl m \<Longrightarrow>
      reading (pvac_output (timer_fire client ml)) = reading (pvac_output ml)"
    and "measure_reply client 1 = Inr V \<Longrightarrow> measure_reply client 2 = Inl m \<Longrightarrow>
      reading (pvac_output (timer_fire client ml)) =
        (PyFloat V, grid_current (pvac_output ml), grid_power (pvac_output ml),
         cum_energy_total (pvac_output ml))"
    and "measure_reply client 1 = Inr V \<Longrightarrow> measure_reply client 2 = Inr I \<Longrightarrow>
      measure_reply client 3 = Inl m \<Longrightarrow>
      reading (pvac_output (timer_fire client ml)) =
        (PyFloat V, PyFloat I, grid_power (pvac_output ml), cum_energy_total (pvac_output ml))"
    and "measure_reply client 1 = Inr V \<Longrightarrow> measure_reply client 2 = Inr I \<Longrightarrow>
      measure_reply client 3 = Inr P \<Longrightarrow> cumulated_energy_reply client 5 = Inl m \<Longrightarrow>
      reading (pvac_output (timer_fire client ml)) =
        (PyFloat V, PyFloat I, PyFloat P, cum_energy_total (pvac_output ml))"
  unfolding tick_state(1) [OF assms(1)] getInverterData_online [OF assms(2-4)]
  by (simp_all add: reading_def)

text \<open>
  A tick in which the power request fails, right after another tick: the voltage and
  current paths get the new values, the power and energy paths keep theirs.
\<close>

lemma power_failure_tick:
  assumes "reachable ml"
    and "connect_reply client = Inr u" and "time_date_reply client = Inr t" and "t \<noteq> - 1"
    and "measure_reply client 1 = Inr V" and "measure_reply client 2 = Inr I"
    and "measure_reply client 3 = Inl m"
  shows "published (timer_fire client (timer_fire client0 ml)) ''/Ac/L1/Voltage''
           = Inr (PyNum (PyFloat (round_float V 2)))"
    and "published (timer_fire client (timer_fire client0 ml)) ''/Ac/L2/Voltage''
           = Inr (PyNum (PyFloat (round_float V 2)))"
    and "published (timer_fire client (timer_fire client0 ml)) ''/Ac/L3/Voltage''
           = Inr (PyNum (PyFloat (round_float V 2)))"
    and "published (timer_fire client (timer_fire client0 ml)) ''/Ac/Current''
           = Inr (PyNum (PyFloat (round_float I 2)))"
    and "published (timer_fire client (timer_fire client0 ml)) ''/Ac/L1/Current''
           = Inr (PyNum (PyFloat (round_float (I / 3) 2)))"
    and "published (timer_fire client (timer_fire client0 ml)) ''/Ac/L2/Current''
           = Inr (PyNum (PyFloat (round_float (I / 3) 2)))"
    and "published (timer_fire client (timer_fire client0 ml)) ''/Ac/L3/Current''
           = Inr (PyNum (PyFloat (round_float (I / 3) 2)))"
    and "published (timer_fire client (timer_fire client0 ml)) ''/Ac/Power''
           = published (timer_fire client0 ml) ''/Ac/Power''"
    and "published (timer_fire client (timer_fire client0 ml)) ''/Ac/L1/Power''
           = published (timer_fire client0 ml) ''/Ac/L1/Power''"
    and "published (timer_fire client (timer_fire client0 ml)) ''/Ac/L2/Power''
           = published (timer_fire client0 ml) ''/Ac/L2/Power''"
    and "published (timer_fire client (timer_fire client0 ml)) ''/Ac/L3/Power''
           = published (timer_fire client0 ml) ''/Ac/L3/Power''"
    and "published (timer_fire client (timer_fire client0 ml)) ''/Ac/Energy/Forward''
           = published (timer_fire client0 ml) ''/Ac/Energy/Forward''"
    and "published (timer_fire client (timer_fire client0 ml)) ''/Ac/L1/Energy/Forward''
           = published (timer_fire client0 ml) ''/Ac/L1/Energy/Forward''"
    and "published (timer_fire client (timer_fire client0 ml)) ''/Ac/L2/Energy/Forward''
           = published (timer_fire client0 ml) ''/Ac/L2/Energy/Forward''"
    and "published (timer_fire client (timer_fire client0 ml)) ''/Ac/L3/Energy/Forward''
           = published (timer_fire client0 ml) ''/Ac/L3/Energy/Forward''"
proof -
  let ?T1 = "timer_fire client0 ml" and ?T2 = "timer_fire client (timer_fire client0 ml)"
  have r1: "reachable ?T1"
    using assms(1) by (rule reachable.after_tick)
  from reading_after_failure(3) [OF r1 assms(2-7)]
  have a: "grid_voltage (pvac_output ?T2) = PyFloat V" "grid_current (pvac_output ?T2) = PyFloat I"
    "grid_power (pvac_output ?T2) = grid_power (pvac_output ?T1)"
    "cum_energy_total (pvac_output ?T2) = cum_energy_total (pvac_output ?T1)"
    by (simp_all add: reading_def)
  note new = published_own_items [OF r1, of _ _ client]
  note old = published_own_items [OF assms(1), of _ _ client0]
  show "published ?T2 ''/Ac/L1/Voltage'' = Inr (PyNum (PyFloat (round_float V 2)))"
    by (rule new) (simp add: update_items_def a)
  show "published ?T2 ''/Ac/L2/Voltage'' = Inr (PyNum (PyFloat (round_float V 2)))"
    by (rule new) (simp add: update_items_def a)
  show "published ?T2 ''/Ac/L3/Voltage'' = Inr (PyNum (PyFloat (round_float V 2)))"
    by (rule new) (simp add: update_items_def a)
  show "published ?T2 ''/Ac/Current'' = Inr (PyNum (PyFloat (round_float I 2)))"
    by (rule new) (simp add: update_items_def a)
  show "published ?T2 ''/Ac/L1/Current'' = Inr (PyNum (PyFloat (round_float (I / 3) 2)))"
    by (rule new) (simp add: update_items_def a)
  show "published ?T2 ''/Ac/L2/Current'' = Inr (PyNum (PyFloat (round_float (I / 3) 2)))"
    by (rule new) (simp add: update_items_def a)
  show "published ?T2 ''/Ac/L3/Current'' = Inr (PyNum (PyFloat (round_float (I / 3) 2)))"
    by (rule new) (simp add: update_items_def a)
  have "published ?T2 ''/Ac/Power'' = Inr (PyNum (py_round (grid_power (pvac_output ?T1)) 2))"
    by (rule new) (simp add: update_items_def a)
  moreover have "published ?T1 ''/Ac/Power'' = Inr (PyNum (py_round (grid_power (pvac_output ?T1)) 2))"
    by (rule old) (simp add: update_items_def)
  ultimately show "published ?T2 ''/Ac/Power'' = published ?T1 ''/Ac/Power''"
    by simp
  have "published ?T2 ''/Ac/L1/Power''
      = Inr (PyNum (py_round (py_truediv (grid_power (pvac_output ?T1)) 3) 2))"
    by (rule new) (simp add: update_items_def a)
  moreover have "published ?T1 ''/Ac/L1/Power''
      = Inr (PyNum (py_round (py_truediv (grid_power (pvac_output ?T1)) 3) 2))"
    by (rule old) (simp add: update_items_def)
  ultimately show "published ?T2 ''/Ac/L1/Power'' = published ?T1 ''/Ac/L1/Power''"
    by simp
  have "published ?T2 ''/Ac/L2/Power''
      = Inr (PyNum (py_round (py_truediv (grid_power (pvac_output ?T1)) 3) 2))"
    by (rule new) (simp add: update_items_def a)
  moreover have "published ?T1 ''/Ac/L2/Power''
      = Inr (PyNum (py_round (py_truediv (grid_power (pvac_output ?T1)) 3) 2))"
    by (rule old) (simp add: update_items_def)
  ultimately show "published ?T2 ''/Ac/L2/Power'' = published ?T1 ''/Ac/L2/Power''"
    by simp
  have "published ?T2 ''/Ac/L3/Power''
      = Inr (PyNum (py_round (py_truediv (grid_power (pvac_output ?T1)) 3) 2))"
    by (rule new) (simp add: update_items_def a)
  moreover have "published ?T1 ''/Ac/L3/Power''
      = Inr (PyNum (py_round (py_truediv (grid_power (pvac_output ?T1)) 3) 2))"
    by (rule old) (simp add: update_items_def)
  ultimately show "published ?T2 ''/Ac/L3/Power'' = published ?T1 ''/Ac/L3/Power''"
    by simp
  have "published ?T2 ''/Ac/Energy/Forward''
      = Inr (PyNum (py_round (py_truediv (cum_energy_total (pvac_output ?T1)) 1000) 2))"
    by (rule new) (simp add: update_items_def a)
  moreover have "published ?T1 ''/Ac/Energy/Forward''
      = Inr (PyNum (py_round (py_truediv (cum_energy_total (pvac_output ?T1)) 1000) 2))"
    by (rule old) (simp add: update_items_def)
  ultimately show "published ?T2 ''/Ac/Energy/Forward'' = published ?T1 ''/Ac/Energy/Forward''"
    by simp
  have "published ?T2 ''/Ac/L1/Energy/Forward''
      = Inr (PyNum (py_round (py_truediv (cum_energy_total (pvac_output ?T1)) 3000) 2))"
    by (rule new) (simp add: update_items_def a)
  moreover have "published ?T1 ''/Ac/L1/Energy/Forward''
      = Inr (PyNum (py_round (py_truediv (cum_energy_total (pvac_output ?T1)) 3000) 2))"
    by (rule old) (simp add: update_items_def)
  ultimately show "published ?T2 ''/Ac/L1/Energy/Forward''
      = published ?T1 ''/Ac/L1/Energy/Forward''"
    by simp
  have "published ?T2 ''/Ac/L2/Energy/Forward''
      = Inr (PyNum (py_round (py_truediv (cum_energy_total (pvac_output ?T1)) 3000) 2))"
    by (rule new) (simp add: update_items_def a)
  moreover have "published ?T1 ''/Ac/L2/Energy/Forward''
      = Inr (PyNum (py_round (py_truediv (cum_energy_total (pvac_output ?T1)) 3000) 2))"
    by (rule old) (simp add: update_items_def)
  ultimately show "published ?T2 ''/Ac/L2/Energy/Forward''
      = published ?T1 ''/Ac/L2/Energy/Forward''"
    by simp
  have "published ?T2 ''/Ac/L3/Energy/Forward''
      = Inr (PyNum (py_round (py_truediv (cum_energy_total (pvac_output ?T1)) 3000) 2))"
    by (rule new) (simp add: update_items_def a)
  moreover have "published ?T1 ''/Ac/L3/Energy/Forward''
      = Inr (PyNum (py_round (py_truediv (cum_energy_total (pvac_output ?T1)) 3000) 2))"
    by (rule old) (simp add: update_items_def)
  ultimately show "published ?T2 ''/Ac/L3/Energy/Forward''
      = published ?T1 ''/Ac/L3/Energy/Forward''"
    by simp
qed

lemma constants_after_tick:
  assumes "reachable ml"
  shows "published (timer_fire client ml) ''/Ac/MaxPower'' = Inr (PyNum (PyInt 10000))"
    and "published (timer_fire client ml) ''/StatusCode'' = Inr (PyNum (PyInt 7))"
  by (rule published_own_items [OF assms], simp add: update_items_def)+

text \<open>
  Claim C4, as amended. The four requests are issued in the order voltage, current,
  power, energy, and the first request that fails ends the acquisition: the fields
  requested before it hold the newly measured values, the field of the failing request
  and the fields of the requests after it, which are not issued, keep what they held.
  In particular, when the power request fails after voltage and current were answered,
  in a tick that follows another tick: the voltage and current paths are updated to the
  new values, \<^verbatim>\<open>/Ac/Power\<close>, the three per-phase power paths and the four energy
  paths keep their values, and \<^verbatim>\<open>/Ac/MaxPower\<close> \<open>= 10000\<close> and \<^verbatim>\<open>/StatusCode\<close>
  \<open>= 7\<close> are published regardless.
\<close>

theorem c4_partial_failure:
  assumes "reachable ml"
    and "connect_reply client = Inr ()" and "time_date_reply client = Inr t" and "t \<noteq> - 1"
  shows
    "(\<forall>m. measure_reply client 1 = Inl m \<longrightarrow>
        reading (pvac_output (timer_fire client ml)) = reading (pvac_output ml))
   \<and> (\<forall>V m. measure_reply client 1 = Inr V \<and> measure_reply client 2 = Inl m \<longrightarrow>
        reading (pvac_output (timer_fire client ml)) =
          (PyFloat V, grid_current (pvac_output ml), grid_power (pvac_output ml),
           cum_energy_total (pvac_output ml)))
   \<and> (\<forall>V I m. measure_reply client 1 = Inr V \<and> measure_reply client 2 = Inr I
          \<and> measure_reply client 3 = Inl m \<longrightarrow>
        reading (pvac_output (timer_fire client ml)) =
          (PyFloat V, PyFloat I, grid_power (pvac_output ml), cum_energy_total (pvac_output ml)))
   \<and> (\<forall>V I P m. measure_reply client 1 = Inr V \<and> measure_reply client 2 = Inr I
          \<and> measure_reply client 3 = Inr P \<and> cumulated_energy_reply client 5 = Inl m \<longrightarrow>
        reading (pvac_output (timer_fire client ml)) =
          (PyFloat V, PyFloat I, PyFloat P, cum_energy_total (pvac_output ml)))
   \<and> (\<forall>V I m. measure_reply client 1 = Inr V \<and> measure_reply client 2 = Inr I
          \<and> measure_reply client 3 = Inl m \<longrightarrow>
        published (timer_fire client (timer_fire client0 ml)) ''/Ac/L1/Voltage''
          = Inr (PyNum (PyFloat (round_float V 2)))
      \<and> published (timer_fire client (timer_fire client0 ml)) ''/Ac/L2/Voltage''
          = Inr (PyNum (PyFloat (round_float V 2)))
      \<and> published (timer_fire client (timer_fire client0 ml)) ''/Ac/L3/Voltage''
          = Inr (PyNum (PyFloat (round_float V 2)))
      \<and> published (timer_fire client (timer_fire client0 ml)) ''/Ac/Current''
          = Inr (PyNum (PyFloat (round_float I 2)))
      \<and> published (timer_fire client (timer_fire client0 ml)) ''/Ac/L1/Current''
          = Inr (PyNum (PyFloat (round_float (I / 3) 2)))
      \<and> published (timer_fire client (timer_fire client0 ml)) ''/Ac/L2/Current''
          = Inr (PyNum (PyFloat (round_float (I / 3) 2)))
      \<and> published (timer_fire client (timer_fire client0 ml)) ''/Ac/L3/Current''
          = Inr (PyNum (PyFloat (round_float (I / 3) 2)))
      \<and> published (timer_fire client (timer_fire client0 ml)) ''/Ac/Power''
          = published (timer_fire client0 ml) ''/Ac/Power''
      \<and> published (timer_fire client (timer_fire client0 ml)) ''/Ac/L1/Power''
          = published (timer_fire client0 ml) ''/Ac/L1/Power''
      \<and> published (timer_fire client (timer_fire client0 ml)) ''/Ac/L2/Power''
          = published (timer_fire client0 ml) ''/Ac/L2/Power''
      \<and> published (timer_fire client (timer_fire client0 ml)) ''/Ac/L3/Power''
          = published (timer_fire client0 ml) ''/Ac/L3/Power''
      \<and> published (timer_fire client (timer_fire client0 ml)) ''/Ac/Energy/Forward''
          = published (timer_fire client0 ml) ''/Ac/Energy/Forward''
      \<and> published (timer_fire client (timer_fire client0 ml)) ''/Ac/L1/Energy/Forward''
          = published (timer_fire client0 ml) ''/Ac/L1/Energy/Forward''
      \<and> published (timer_fire client (timer_fire client0 ml)) ''/Ac/L2/Energy/Forward''
          = published (timer_fire client0 ml) ''/Ac/L2/Energy/Forward''
      \<and> published (timer_fire client (timer_fire client0 ml)) ''/Ac/L3/Energy/Forward''
          = published (timer_fire client0 ml) ''/Ac/L3/Energy/Forward''
      \<and> published (timer_fire client (timer_fire client0 ml)) ''/Ac/MaxPower''
          = Inr (PyNum (PyInt 10000))
      \<and> published (timer_fire client (timer_fire client0 ml)) ''/StatusCode''
          = Inr (PyNum (PyInt 7)))"
proof (intro conjI allI impI; (elim conjE)?)
  fix m assume "measure_reply client 1 = Inl m"
  then show "reading (pvac_output (timer_fire client ml)) = reading (pvac_output ml)"
    by (rule reading_after_failure(1) [OF assms])
next
  fix V m assume "measure_reply client 1 = Inr V" "measure_reply client 2 = Inl m"
  then show "reading (pvac_output (timer_fire client ml)) =
      (PyFloat V, grid_current (pvac_output ml), grid_power (pvac_output ml),
       cum_energy_total (pvac_output ml))"
    by (rule reading_after_failure(2) [OF assms])
next
  fix V I m assume "measure_reply client 1 = Inr V" "measure_reply client 2 = Inr I"
    "measure_reply client 3 = Inl m"
  then show "reading (pvac_output (timer_fire client ml)) =
      (PyFloat V, PyFloat I, grid_power (pvac_output ml), cum_energy_total (pvac_output ml))"
    by (rule reading_after_failure(3) [OF assms])
next
  fix V I P m assume "measure_reply client 1 = Inr V" "measure_reply client 2 = Inr I"
    "measure_reply client 3 = Inr P" "cumulated_energy_reply client 5 = Inl m"
  then show "reading (pvac_output (timer_fire client ml)) =
      (PyFloat V, PyFloat I, PyFloat P, cum_energy_total (pvac_output ml))"
    by (rule reading_after_failure(4) [OF assms])
qed (rule power_failure_tick [OF assms] constants_after_tick
      [OF reachable.after_tick [OF assms(1)]]; assumption)+

text \<open>
  The scenario of the specification, then a tick in which the power request fails while
  the device answers 231 V and 16 A and would answer 130000 for the energy.
\<close>

theorem c4_partial_failure_witness:
  "case main ''dbus_aurora_pvinverter.py'' ''3.8.13'' of
     Inl e \<Rightarrow> False
   | Inr ml \<Rightarrow>
       reachable ml
     \<and> measure_reply power_failure_device 3 = Inl ''no answer''
     \<and> published (timer_fire power_failure_device (timer_fire scenario_device ml))
          ''/Ac/L1/Voltage'' = Inr (PyNum (PyFloat 231))
     \<and> published (timer_fire power_failure_device (timer_fire scenario_device ml))
          ''/Ac/Energy/Forward'' = Inr (PyNum (PyFloat (241 / 2)))
     \<and> published (timer_fire power_failure_device (timer_fire scenario_device ml))
          ''/Ac/MaxPower'' = Inr (PyNum (PyInt 10000))"
proof -
  obtain ml where m: "main ''dbus_aurora_pvinverter.py'' ''3.8.13'' = Inr ml"
    using main_ok by blast
  then have r: "reachable ml" by (rule reachable.at_start)
  have dev: "connect_reply power_failure_device = Inr ()"
    "time_date_reply power_failure_device = Inr 0" "(0::int) \<noteq> - 1"
    by (simp_all add: power_failure_device_def online_device_def)
  have ans: "measure_reply power_failure_device 1 = Inr 231"
    "measure_reply power_failure_device 2 = Inr 16"
    "measure_reply power_failure_device 3 = Inl ''no answer''"
    by (simp_all add: power_failure_device_def online_device_def)
  from c4_partial_failure [OF r dev, of scenario_device] ans
  have "published (timer_fire power_failure_device (timer_fire scenario_device ml))
          ''/Ac/L1/Voltage'' = Inr (PyNum (PyFloat (round_float 231 2)))
     \<and> published (timer_fire power_failure_device (timer_fire scenario_device ml))
          ''/Ac/Energy/Forward'' = published (timer_fire scenario_device ml) ''/Ac/Energy/Forward''
     \<and> published (timer_fire power_failure_device (timer_fire scenario_device ml))
          ''/Ac/MaxPower'' = Inr (PyNum (PyInt 10000))"
    by blast
  moreover have "round_float 231 2 = 231"
    by (simp add: round_float_def round_half_even_def)
  ultimately show ?thesis
    using scenario_energy_published [OF m] r ans(3) by (simp add: m)
qed

text \<open>
  The claim as stated lets only the field of the failing request keep its value. In the
  same two ticks the energy request is never issued: the forward energy keeps 120.5
  although the device would have answered 130000, that is 130.0.
\<close>

theorem c4_only_failing_field_counterexample:
  "case main ''dbus_aurora_pvinverter.py'' ''3.8.13'' of
     Inl e \<Rightarrow> False
   | Inr ml \<Rightarrow>
       measure_reply power_failure_device 1 = Inr 231
     \<and> measure_reply power_failure_device 2 = Inr 16
     \<and> measure_reply power_failure_device 3 = Inl ''no answer''
     \<and> cumulated_energy_reply power_failure_device 5 = Inr 130000
     \<and> calls_of power_failure_device (pvac_output (timer_fire scenario_device ml))
          = [Connect, Time_date, Measure 1, Measure 2, Measure 3, Close]
     \<and> published (timer_fire power_failure_device (timer_fire scenario_device ml))
          ''/Ac/Energy/Forward'' = Inr (PyNum (PyFloat (241 / 2)))
     \<and> published (timer_fire power_failure_device (timer_fire scenario_device ml))
          ''/Ac/Energy/Forward'' \<noteq> Inr (PyNum (PyFloat 130))"
proof -
  obtain ml where m: "main ''dbus_aurora_pvinverter.py'' ''3.8.13'' = Inr ml"
    using main_ok by blast
  then have r: "reachable ml" by (rule reachable.at_start)
  have dev: "connect_reply power_failure_device = Inr ()"
    "time_date_reply power_failure_device = Inr 0" "(0::int) \<noteq> - 1"
    by (simp_all add: power_failure_device_def online_device_def)
  have ans: "measure_reply power_failure_device 1 = Inr 231"
    "measure_reply power_failure_device 2 = Inr 16"
    "measure_reply power_failure_device 3 = Inl ''no answer''"
    by (simp_all add: power_failure_device_def online_device_def)
  have en: "cumulated_energy_reply power_failure_device 5 = Inr 130000"
    by (simp add: power_failure_device_def online_device_def)
  have calls: "calls_of power_failure_device (pvac_output (timer_fire scenario_device ml))
      = [Connect, Time_date, Measure 1, Measure 2, Measure 3, Close]"
    by (simp add: calls_of_cases power_failure_device_def online_device_def)
  have "published (timer_fire power_failure_device (timer_fire scenario_device ml))
      ''/Ac/Energy/Forward'' = published (timer_fire scenario_device ml) ''/Ac/Energy/Forward''"
    by (rule power_failure_tick(12) [OF r dev ans])
  with scenario_energy_published [OF m]
  have "published (timer_fire power_failure_device (timer_fire scenario_device ml))
      ''/Ac/Energy/Forward'' = Inr (PyNum (PyFloat (241 / 2)))"
    by simp
  with ans en calls show ?thesis
    by (simp add: m)
qed

end
